theory Spec2Isabelle
  imports Complex_Main "HOL-Library.AList" "HOL-Library.Multiset"
begin

section \<open>Strings\<close>

text \<open>
  Column names and cell values are Python \<open>str\<close>. The model restricts them to
  8-bit characters, on which \<open>str.lower()\<close> and \<open>str.upper()\<close> change the ASCII
  letters only. \<open>contains sub s\<close> is Python's \<open>sub in s\<close>.
\<close>

definition lower_char :: "char \<Rightarrow> char" where
  "lower_char c =
     (let n = (of_char c :: nat) in if 65 \<le> n \<and> n \<le> 90 then char_of (n + 32) else c)"

definition upper_char :: "char \<Rightarrow> char" where
  "upper_char c =
     (let n = (of_char c :: nat) in if 97 \<le> n \<and> n \<le> 122 then char_of (n - 32) else c)"

definition lower :: "string \<Rightarrow> string" where
  "lower s = map lower_char s"

definition upper :: "string \<Rightarrow> string" where
  "upper s = map upper_char s"

fun starts_with :: "string \<Rightarrow> string \<Rightarrow> bool" where
  "starts_with [] s = True"
| "starts_with (p # ps) [] = False"
| "starts_with (p # ps) (c # cs) = (p = c \<and> starts_with ps cs)"

fun contains :: "string \<Rightarrow> string \<Rightarrow> bool" where
  "contains sub [] = (sub = [])"
| "contains sub (c # cs) = (starts_with sub (c # cs) \<or> contains sub cs)"

section \<open>Numbers\<close>

text \<open>
  Python floats are modelled by exact rationals. \<open>round(x, 2)\<close> rounds to the nearest
  multiple of 1/100, a tie going to the even neighbour.
\<close>

definition py_round :: "rat \<Rightarrow> int" where
  "py_round x =
     (let f = \<lfloor>x\<rfloor>; d = x - of_int f
      in if d < 1 / 2 then f else if 1 / 2 < d then f + 1 else if even f then f else f + 1)"

definition round2 :: "rat \<Rightarrow> rat" where
  "round2 x = of_int (py_round (x * 100)) / 100"

section \<open>Data model\<close>

text \<open>
  A check result is the dictionary the check functions return: \<open>check_id\<close>,
  \<open>passed\<close>, \<open>severity\<close> and \<open>metrics\<close> are written by every check function, and
  \<open>dimension\<close> is added by the executor (\<open>None\<close> before that; the agents read it with
  \<open>check.get("dimension", "unknown")\<close>). \<open>metrics\<close> holds the numeric entries of the
  metrics dictionary, in insertion order, and \<open>message\<close> its entry \<open>"message"\<close>; the list-valued entries
  (samples, per-column details) are read by no function modelled here.
\<close>

record check_result =
  check_id :: string
  dimension :: "string option"
  passed :: bool
  severity :: string
  metrics :: "(string \<times> rat) list"
  message :: "string option"

text \<open>
  The profile as the selector and the scoring agent read it: \<open>columns\<close> are the keys
  of \<open>profile["columns"]\<close> in insertion order, the other lists are the buckets of
  \<open>profile["inferred_types"]\<close>.
\<close>

record profile =
  row_count :: nat
  column_count :: nat
  columns :: "string list"
  id_columns :: "string list"
  timestamp_columns :: "string list"
  enum_columns :: "string list"
  numeric_columns :: "string list"
  text_columns :: "string list"

record dim_score =
  score :: rat
  weight :: rat

record scoring_result =
  dimension_scores :: "(string \<times> dim_score) list"
  composite_dqs :: rat
  dimension_weights :: "(string \<times> rat) list"

section \<open>Scoring agent\<close>

definition FIELD_CRITICALITY :: "(string \<times> nat) list" where
  "FIELD_CRITICALITY =
     [(''amount'', 3), (''currency'', 3), (''txn_id'', 3), (''transaction_id'', 3),
      (''status'', 3), (''merchant_id'', 2), (''mcc'', 2), (''country'', 2),
      (''merchant'', 2), (''customer_id'', 3), (''kyc'', 3), (''compliance'', 3)]"

definition severity_weights :: "string \<Rightarrow> rat" where
  "severity_weights s =
     (if s = ''critical'' then 4 else if s = ''high'' then 3
      else if s = ''medium'' then 2 else if s = ''low'' then 1 else 2)"

definition base_weights :: "string \<Rightarrow> rat" where
  "base_weights d =
     (if d = ''completeness'' then 2 else if d = ''uniqueness'' then 3
      else if d = ''validity'' then 5 / 2 else if d = ''consistency'' then 5 / 2
      else if d = ''timeliness'' then 2 else if d = ''integrity'' then 5 / 2
      else if d = ''reconciliation'' then 3 else 2)"

definition check_dimension :: "check_result \<Rightarrow> string" where
  "check_dimension c = (case dimension c of None \<Rightarrow> ''unknown'' | Some d \<Rightarrow> d)"

text \<open>\<open>for field in fields: if field in metrics: return metrics[field]\<close>\<close>

fun first_present :: "string list \<Rightarrow> (string \<times> rat) list \<Rightarrow> rat option" where
  "first_present [] m = None"
| "first_present (f # fs) m =
     (case map_of m f of Some v \<Rightarrow> Some v | None \<Rightarrow> first_present fs m)"

definition rate_fields :: "string list" where
  "rate_fields =
     [''overall_null_rate'', ''overall_duplicate_rate'', ''overall_invalid_rate'',
      ''inconsistent_rate'', ''violation_rate'', ''excessive_delay_rate'']"

definition match_fields :: "string list" where
  "match_fields = [''match_rate'', ''overall_reconciliation_rate'']"

definition extract_error_rate :: "check_result \<Rightarrow> rat" where
  "extract_error_rate c =
     (case first_present rate_fields (metrics c) of
        Some r \<Rightarrow> r
      | None \<Rightarrow>
          (case first_present match_fields (metrics c) of
             Some r \<Rightarrow> 1 - r
           | None \<Rightarrow> if \<not> passed c then 5 / 100 else 0))"

definition critical_count :: "string list \<Rightarrow> nat" where
  "critical_count cols =
     sum_list (map (\<lambda>col. sum_list (map (\<lambda>(critical_field, criticality).
        if contains critical_field (lower col) then criticality else 0) FIELD_CRITICALITY)) cols)"

definition get_dimension_weight :: "string \<Rightarrow> profile \<Rightarrow> rat" where
  "get_dimension_weight d p =
     (let w = base_weights d;
          w' = (if 10 < critical_count (columns p) then w * (12 / 10) else w)
      in round2 w')"

definition weighted_error_rate :: "check_result list \<Rightarrow> rat" where
  "weighted_error_rate checks =
     (let total_error_weight =
            sum_list (map (\<lambda>c. extract_error_rate c * severity_weights (severity c)) checks);
          total_weight = sum_list (map (\<lambda>c. severity_weights (severity c)) checks)
      in if 0 < total_weight then total_error_weight / total_weight else 0)"

definition compute_dimension_score :: "string \<Rightarrow> check_result list \<Rightarrow> profile \<Rightarrow> dim_score" where
  "compute_dimension_score d checks p =
     (if checks = [] then \<lparr>score = 100, weight = 1\<rparr>
      else \<lparr>score = round2 (max 0 (100 * (1 - weighted_error_rate checks))),
            weight = get_dimension_weight d p\<rparr>)"

definition dict_get :: "('k \<times> 'v) list \<Rightarrow> 'k \<Rightarrow> 'v \<Rightarrow> 'v" where
  "dict_get m k dflt = (case map_of m k of None \<Rightarrow> dflt | Some v \<Rightarrow> v)"

definition compute_composite_score ::
  "(string \<times> dim_score) list \<Rightarrow> (string \<times> rat) list \<Rightarrow> rat" where
  "compute_composite_score scores weights =
     (let total_weighted_score =
            sum_list (map (\<lambda>(d, sd). score sd * dict_get weights d 1) scores);
          total_weight = sum_list (map (\<lambda>(d, sd). dict_get weights d 1) scores);
          composite = (if 0 < total_weight then total_weighted_score / total_weight else 0)
      in round2 composite)"

text \<open>
  The two dictionaries of \<open>compute_scores\<close> are association lists in insertion order;
  \<open>AList.update\<close> is the dictionary assignment (a key already present keeps its place).
\<close>

fun score_loop ::
  "(string \<Rightarrow> check_result list) \<Rightarrow> profile \<Rightarrow> string list \<Rightarrow>
   (string \<times> dim_score) list \<times> (string \<times> rat) list \<Rightarrow>
   (string \<times> dim_score) list \<times> (string \<times> rat) list" where
  "score_loop cbd p [] acc = acc"
| "score_loop cbd p (d # ds) (scores, weights) =
     (let score_result = compute_dimension_score d (cbd d) p
      in score_loop cbd p ds
           (AList.update d score_result scores, AList.update d (weight score_result) weights))"

definition checks_by_dimension :: "check_result list \<Rightarrow> string \<Rightarrow> check_result list" where
  "checks_by_dimension check_results d = filter (\<lambda>c. check_dimension c = d) check_results"

definition compute_scores :: "check_result list \<Rightarrow> profile \<Rightarrow> string list \<Rightarrow> scoring_result" where
  "compute_scores check_results p selected_dimensions =
     (case score_loop (checks_by_dimension check_results) p selected_dimensions ([], []) of
        (scores, weights) \<Rightarrow>
          \<lparr>dimension_scores = scores,
           composite_dqs = compute_composite_score scores weights,
           dimension_weights = weights\<rparr>)"

definition dimension_score_of :: "check_result list \<Rightarrow> profile \<Rightarrow> string \<Rightarrow> dim_score" where
  "dimension_score_of crs p d = compute_dimension_score d (checks_by_dimension crs d) p"

definition extract_frequency :: "check_result \<Rightarrow> rat" where
  "extract_frequency c =
     (case first_present rate_fields (metrics c) of
        Some r \<Rightarrow> r
      | None \<Rightarrow>
          (case first_present match_fields (metrics c) of
             Some r \<Rightarrow> 1 - r
           | None \<Rightarrow> 5 / 100))"

section \<open>Datasets\<close>

text \<open>
  A pandas \<open>DataFrame\<close> is its row count and its columns in order, each a name and a
  list of cells. A cell is missing (\<open>NaN\<close>) or a value, kept as the string that
  \<open>astype(str)\<close> gives it; \<open>astype(str)\<close> turns a missing cell into the string
  \<open>nan\<close>, so that a stringified series has no missing entry (\<open>str_isna\<close>).
  \<open>df_columns\<close> is \<open>df.columns\<close>, \<open>nrows\<close> is \<open>len(df)\<close>, \<open>df_col df c\<close> is
  \<open>df[c]\<close> for a column name of the frame. The checks read columns by name, which gives
  a series only when that name occurs once: the properties below that read cells assume
  distinct column names.
\<close>

datatype cell = NaN | Val string

record dataframe =
  nrows :: nat
  cols :: "(string \<times> cell list) list"

datatype py_error = ZeroDivisionError | IndexError

definition df_columns :: "dataframe \<Rightarrow> string list" where
  "df_columns df = map fst (cols df)"

definition df_col :: "dataframe \<Rightarrow> string \<Rightarrow> cell list" where
  "df_col df c = (case map_of (cols df) c of None \<Rightarrow> [] | Some vs \<Rightarrow> vs)"

fun astype_str :: "cell \<Rightarrow> string" where
  "astype_str NaN = ''nan''"
| "astype_str (Val s) = s"

definition str_isna :: "string \<Rightarrow> bool" where
  "str_isna s = False"

definition isna :: "cell \<Rightarrow> bool" where
  "isna v = (v = NaN)"

definition nunique :: "cell list \<Rightarrow> nat" where
  "nunique vs = length (remdups (filter (\<lambda>v. \<not> isna v) vs))"

definition name_has :: "string \<Rightarrow> string \<Rightarrow> bool" where
  "name_has keyword col = contains keyword (lower col)"

definition count_where :: "('a \<Rightarrow> bool) \<Rightarrow> 'a list \<Rightarrow> nat" where
  "count_where P xs = length (filter P xs)"

text \<open>The result every check returns when it does not apply.\<close>

definition inapplicable :: "string \<Rightarrow> string \<Rightarrow> check_result" where
  "inapplicable cid msg =
     \<lparr>check_id = cid, dimension = None, passed = True, severity = ''low'', metrics = [],
      message = Some msg\<rparr>"

section \<open>Completeness checks\<close>






section \<open>Uniqueness checks\<close>

definition id_keywords :: "string list" where
  "id_keywords = [''id'', ''key'', ''uuid'', ''guid'', ''reference'', ''ref'']"

definition infer_key_columns :: "dataframe \<Rightarrow> py_error + string list" where
  "infer_key_columns df =
     (let key_columns =
            filter (\<lambda>col. list_ex (\<lambda>keyword. name_has keyword col) id_keywords \<and>
                      (let unique_count = nunique (df_col df col);
                           total_count = nrows df;
                           uniqueness_ratio =
                             (if 0 < total_count
                              then (of_nat unique_count :: rat) / of_nat total_count else 0)
                       in 95 / 100 < uniqueness_ratio))
              (df_columns df)
      in if key_columns = [] \<and> 0 < length (df_columns df) then
           (let first_col = hd (df_columns df);
                unique_count = nunique (df_col df first_col);
                total_count = nrows df
            in if total_count = 0 then Inl ZeroDivisionError
               else if 95 / 100 < (of_nat unique_count :: rat) / of_nat total_count
               then Inr (key_columns @ [first_col])
               else Inr key_columns)
         else Inr key_columns)"

text \<open>\<open>duplicated()\<close> marks every occurrence of a value after its first; missing cells
  count as one value.\<close>

definition duplicated_count :: "cell list \<Rightarrow> nat" where
  "duplicated_count vs = length vs - length (remdups vs)"

definition check_duplicates :: "dataframe \<Rightarrow> string list \<Rightarrow> check_result" where
  "check_duplicates df key_columns =
     (if key_columns = [] then inapplicable ''uniqueness_duplicates'' ''No key columns identified''
      else
        (let total_duplicates =
               sum_list (map (\<lambda>col. if col \<in> set (df_columns df)
                                     then duplicated_count (df_col df col) else 0) key_columns);
             overall_dup_rate =
               (if 0 < nrows df \<and> key_columns \<noteq> []
                then (of_nat total_duplicates :: rat) / of_nat (nrows df * length key_columns)
                else 0)
         in \<lparr>check_id = ''uniqueness_duplicates'', dimension = None,
             passed = (overall_dup_rate = 0),
             severity = (if 1 / 100 < overall_dup_rate then ''critical''
                         else if 0 < overall_dup_rate then ''high'' else ''low''),
             metrics = [(''overall_duplicate_rate'', overall_dup_rate)],
             message = None\<rparr>))"

definition run_uniqueness_checks :: "dataframe \<Rightarrow> py_error + check_result list" where
  "run_uniqueness_checks df =
     (case infer_key_columns df of
        Inl e \<Rightarrow> Inl e
      | Inr key_columns \<Rightarrow> Inr [check_duplicates df key_columns])"

section \<open>Validity checks\<close>

definition VALID_CURRENCIES :: "string list" where
  "VALID_CURRENCIES =
     [''USD'', ''EUR'', ''GBP'', ''JPY'', ''CNY'', ''AUD'', ''CAD'', ''CHF'', ''HKD'', ''SGD'',
      ''SEK'', ''KRW'', ''NOK'', ''NZD'', ''INR'', ''MXN'', ''ZAR'', ''BRL'', ''RUB'', ''TRY'',
      ''AED'', ''SAR'', ''THB'', ''MYR'', ''IDR'', ''PHP'', ''DKK'', ''PLN'', ''CZK'', ''HUF'']"

definition VALID_COUNTRIES :: "string list" where
  "VALID_COUNTRIES =
     [''US'', ''GB'', ''CA'', ''AU'', ''DE'', ''FR'', ''IT'', ''ES'', ''NL'', ''BE'', ''CH'', ''AT'',
      ''SE'', ''NO'', ''DK'', ''FI'', ''IE'', ''PT'', ''GR'', ''PL'', ''CZ'', ''HU'', ''RO'', ''BG'',
      ''JP'', ''CN'', ''KR'', ''IN'', ''SG'', ''HK'', ''TH'', ''MY'', ''ID'', ''PH'', ''VN'', ''NZ'',
      ''MX'', ''BR'', ''AR'', ''CL'', ''CO'', ''PE'', ''ZA'', ''AE'', ''SA'', ''TR'', ''RU'', ''IL'']"

text \<open>
  One entry of \<open>invalid_mask = ~values.isin(valid) & ~values.isna()\<close>, where
  \<open>values = df[col].astype(str).str.upper()\<close>.
\<close>

definition code_invalid :: "string list \<Rightarrow> cell \<Rightarrow> bool" where
  "code_invalid valid v =
     (let s = upper (astype_str v) in s \<notin> set valid \<and> \<not> str_isna s)"

definition overall_rate :: "nat \<Rightarrow> nat \<Rightarrow> string list \<Rightarrow> rat" where
  "overall_rate total_invalid n target_cols =
     (if 0 < n \<and> target_cols \<noteq> []
      then of_nat total_invalid / of_nat (n * length target_cols) else 0)"

definition currency_cols :: "dataframe \<Rightarrow> string list" where
  "currency_cols df = filter (name_has ''currency'') (df_columns df)"

definition check_currency_validity :: "dataframe \<Rightarrow> check_result" where
  "check_currency_validity df =
     (if currency_cols df = [] then inapplicable ''validity_currency'' ''No currency columns found''
      else
        (let total_invalid =
               sum_list (map (\<lambda>col. if col \<in> set (df_columns df)
                                     then count_where (code_invalid VALID_CURRENCIES) (df_col df col)
                                     else 0) (currency_cols df));
             overall_invalid_rate = overall_rate total_invalid (nrows df) (currency_cols df)
         in \<lparr>check_id = ''validity_currency'', dimension = None,
             passed = (overall_invalid_rate = 0),
             severity = (if 1 / 100 < overall_invalid_rate then ''high''
                         else if 0 < overall_invalid_rate then ''medium'' else ''low''),
             metrics = [(''overall_invalid_rate'', overall_invalid_rate)],
             message = None\<rparr>))"

definition country_cols :: "dataframe \<Rightarrow> string list" where
  "country_cols df = filter (name_has ''country'') (df_columns df)"

definition check_country_validity :: "dataframe \<Rightarrow> check_result" where
  "check_country_validity df =
     (if country_cols df = [] then inapplicable ''validity_country'' ''No country columns found''
      else
        (let total_invalid =
               sum_list (map (\<lambda>col. if col \<in> set (df_columns df)
                                     then count_where (code_invalid VALID_COUNTRIES) (df_col df col)
                                     else 0) (country_cols df));
             overall_invalid_rate = overall_rate total_invalid (nrows df) (country_cols df)
         in \<lparr>check_id = ''validity_country'', dimension = None,
             passed = (overall_invalid_rate = 0),
             severity = (if 1 / 100 < overall_invalid_rate then ''medium'' else ''low''),
             metrics = [(''overall_invalid_rate'', overall_invalid_rate)],
             message = None\<rparr>))"

text \<open>
  \<open>str.match(r'^\d{4}$')\<close>: four digits, and \<open>$\<close> also matches before one final
  newline.
\<close>

definition is_digit :: "char \<Rightarrow> bool" where
  "is_digit c = (48 \<le> (of_char c :: nat) \<and> (of_char c :: nat) \<le> 57)"

definition match_4_digits :: "string \<Rightarrow> bool" where
  "match_4_digits s =
     (list_all is_digit (take 4 s) \<and>
      (length s = 4 \<or> (length s = 5 \<and> s ! 4 = char_of (10 :: nat))))"

definition mcc_cols :: "dataframe \<Rightarrow> string list" where
  "mcc_cols df = filter (name_has ''mcc'') (df_columns df)"

definition mcc_invalid :: "dataframe option \<Rightarrow> cell \<Rightarrow> bool" where
  "mcc_invalid mcc_reference v =
     (let s = astype_str v;
          format_invalid = (\<not> match_4_digits s \<and> \<not> str_isna s)
      in case mcc_reference of
           None \<Rightarrow> format_invalid
         | Some ref \<Rightarrow>
             if ''mcc'' \<in> set (df_columns ref)
             then format_invalid \<or>
                  (s \<notin> set (map astype_str (df_col ref ''mcc'')) \<and> \<not> str_isna s)
             else format_invalid)"

definition check_mcc_validity :: "dataframe \<Rightarrow> dataframe option \<Rightarrow> check_result" where
  "check_mcc_validity df mcc_reference =
     (if mcc_cols df = [] then inapplicable ''validity_mcc'' ''No MCC columns found''
      else
        (let total_invalid =
               sum_list (map (\<lambda>col. if col \<in> set (df_columns df)
                                     then count_where (mcc_invalid mcc_reference) (df_col df col)
                                     else 0) (mcc_cols df));
             overall_invalid_rate = overall_rate total_invalid (nrows df) (mcc_cols df)
         in \<lparr>check_id = ''validity_mcc'', dimension = None,
             passed = (overall_invalid_rate = 0),
             severity = (if 1 / 100 < overall_invalid_rate then ''medium'' else ''low''),
             metrics = [(''overall_invalid_rate'', overall_invalid_rate)],
             message = None\<rparr>))"



section \<open>Consistency checks\<close>









section \<open>Timeliness checks\<close>




section \<open>Integrity checks\<close>







section \<open>Reconciliation checks\<close>





section \<open>Dimension selector agent\<close>

text \<open>
  \<open>has_references\<close> is a dictionary of flags read with \<open>.get\<close>: an absent key counts
  as false. \<open>select_dimensions\<close> is the list \<open>selected\<close> the agent builds by appending;
  the rationale strings it collects beside it are not modelled.
\<close>

definition ref_available :: "(string \<rightharpoonup> bool) \<Rightarrow> string \<Rightarrow> bool" where
  "ref_available has_references k = (has_references k = Some True)"

definition any_column :: "string \<Rightarrow> profile \<Rightarrow> bool" where
  "any_column keyword p = list_ex (\<lambda>col. contains keyword (lower col)) (columns p)"

definition has_validity_targets :: "profile \<Rightarrow> bool" where
  "has_validity_targets p =
     (enum_columns p \<noteq> [] \<or> any_column ''currency'' p \<or> any_column ''country'' p \<or>
      any_column ''mcc'' p \<or> any_column ''amount'' p)"

definition has_consistency_targets :: "profile \<Rightarrow> bool" where
  "has_consistency_targets p = (any_column ''status'' p \<or> 1 < length (timestamp_columns p))"

definition select_dimensions :: "profile \<Rightarrow> (string \<rightharpoonup> bool) \<Rightarrow> string list" where
  "select_dimensions p has_references =
     (let selected = [''completeness''];
          selected = (if id_columns p \<noteq> [] then selected @ [''uniqueness''] else selected);
          selected = (if has_validity_targets p then selected @ [''validity''] else selected);
          selected = (if has_consistency_targets p then selected @ [''consistency''] else selected);
          selected = (if timestamp_columns p \<noteq> [] then selected @ [''timeliness''] else selected);
          selected = (if ref_available has_references ''merchants'' \<or>
                         ref_available has_references ''customers''
                      then selected @ [''integrity''] else selected);
          selected = (if ref_available has_references ''settlement_ledger'' \<or>
                         ref_available has_references ''bin_map''
                      then selected @ [''reconciliation''] else selected)
      in selected)"

text \<open>The predicate table of the specification, in its words, and its fixed order.\<close>

definition all_dimensions :: "string list" where
  "all_dimensions =
     [''completeness'', ''uniqueness'', ''validity'', ''consistency'', ''timeliness'',
      ''integrity'', ''reconciliation'']"

definition included_iff :: "profile \<Rightarrow> (string \<rightharpoonup> bool) \<Rightarrow> string \<Rightarrow> bool" where
  "included_iff p has_references d =
     (if d = ''completeness'' then True
      else if d = ''uniqueness'' then 1 \<le> length (id_columns p)
      else if d = ''validity'' then
        enum_columns p \<noteq> [] \<or>
        list_ex (\<lambda>col. contains ''currency'' (lower col) \<or> contains ''country'' (lower col) \<or>
                       contains ''mcc'' (lower col) \<or> contains ''amount'' (lower col)) (columns p)
      else if d = ''consistency'' then
        list_ex (\<lambda>col. contains ''status'' (lower col)) (columns p) \<or>
        1 < length (timestamp_columns p)
      else if d = ''timeliness'' then 1 \<le> length (timestamp_columns p)
      else if d = ''integrity'' then
        has_references ''merchants'' = Some True \<or> has_references ''customers'' = Some True
      else if d = ''reconciliation'' then
        has_references ''settlement_ledger'' = Some True \<or> has_references ''bin_map'' = Some True
      else False)"

section \<open>Remediation agent\<close>

text \<open>
  An issue as \<open>_rank_issues\<close> builds it, without its descriptive texts (\<open>what\<close>,
  \<open>where\<close>, \<open>root_cause\<close>, \<open>fix_steps\<close>), which are table lookups on the check id.
\<close>

record issue =
  issue_check_id :: string
  issue_dimension :: string
  issue_severity :: string
  priority_score :: rat
  impact_category :: string
  frequency :: rat
  expected_score_gain :: rat

definition round4 :: "rat \<Rightarrow> rat" where
  "round4 x = of_int (py_round (x * 10000)) / 10000"

definition severity_scores :: "string \<Rightarrow> rat" where
  "severity_scores s =
     (if s = ''critical'' then 10 else if s = ''high'' then 7
      else if s = ''medium'' then 4 else if s = ''low'' then 2 else 4)"

definition severity_multiplier :: "string \<Rightarrow> rat" where
  "severity_multiplier s =
     (if s = ''critical'' then 1 else if s = ''high'' then 7 / 10
      else if s = ''medium'' then 4 / 10 else if s = ''low'' then 2 / 10 else 4 / 10)"

definition impact_categories :: "string \<Rightarrow> string" where
  "impact_categories d =
     (if d = ''completeness'' then ''Operational'' else if d = ''uniqueness'' then ''Financial''
      else if d = ''validity'' then ''Operational'' else if d = ''consistency'' then ''Financial''
      else if d = ''timeliness'' then ''Operational'' else if d = ''integrity'' then ''Regulatory''
      else if d = ''reconciliation'' then ''Financial'' else ''Operational'')"

definition estimate_score_gain :: "check_result \<Rightarrow> scoring_result \<Rightarrow> rat" where
  "estimate_score_gain c sr =
     (let current_score =
            (case map_of (dimension_scores sr) (check_dimension c) of
               None \<Rightarrow> 100 | Some sd \<Rightarrow> score sd);
          potential_gain = extract_frequency c * 100 * severity_multiplier (severity c);
          headroom = 100 - current_score
      in min potential_gain headroom)"

definition make_issue :: "scoring_result \<Rightarrow> check_result \<Rightarrow> issue" where
  "make_issue sr c =
     (let criticality =
            (case map_of (dimension_scores sr) (check_dimension c) of
               None \<Rightarrow> 1 | Some sd \<Rightarrow> weight sd);
          priority = severity_scores (severity c) * extract_frequency c * criticality
      in \<lparr>issue_check_id = check_id c,
          issue_dimension = check_dimension c,
          issue_severity = severity c,
          priority_score = round2 priority,
          impact_category = impact_categories (check_dimension c),
          frequency = round4 (extract_frequency c),
          expected_score_gain = round2 (estimate_score_gain c sr)\<rparr>)"

text \<open>The issues in the order of their check results, before they are sorted.\<close>

definition failing_issues :: "check_result list \<Rightarrow> scoring_result \<Rightarrow> issue list" where
  "failing_issues check_results sr = map (make_issue sr) (filter (\<lambda>c. \<not> passed c) check_results)"

text \<open>
  \<open>issues.sort(key=..., reverse=True)\<close>. Python's \<open>list.sort\<close> is stable, and with
  \<open>reverse=True\<close> it still keeps elements of equal key in their original order; it is
  modelled by the stable insertion sort \<open>sort_key\<close> on the negated key.
\<close>

definition rank_issues :: "check_result list \<Rightarrow> scoring_result \<Rightarrow> issue list" where
  "rank_issues check_results sr =
     sort_key (\<lambda>x. - priority_score x) (failing_issues check_results sr)"

definition top_issues :: "check_result list \<Rightarrow> scoring_result \<Rightarrow> issue list" where
  "top_issues check_results sr = take 10 (rank_issues check_results sr)"

section \<open>Example inputs\<close>

definition mk_check :: "string \<Rightarrow> string \<Rightarrow> bool \<Rightarrow> string \<Rightarrow> (string \<times> rat) list \<Rightarrow> check_result" where
  "mk_check cid d ok sev m =
     \<lparr>check_id = cid, dimension = Some d, passed = ok, severity = sev, metrics = m, message = None\<rparr>"

definition plain_profile :: "string list \<Rightarrow> profile" where
  "plain_profile names =
     \<lparr>row_count = 0, column_count = length names, columns = names, id_columns = [],
      timestamp_columns = [], enum_columns = [], numeric_columns = [], text_columns = []\<rparr>"

definition rounding_checks :: "check_result list" where
  "rounding_checks =
     [mk_check ''completeness_null_rates'' ''completeness'' True ''low'' [(''overall_null_rate'', 0)],
      mk_check ''validity_currency'' ''validity'' False ''high'' [(''overall_invalid_rate'', 1)]]"

definition negative_rate_checks :: "check_result list" where
  "negative_rate_checks =
     [mk_check ''completeness_null_rates'' ''completeness'' True ''low'' [(''overall_null_rate'', - 1)]]"

definition over_one_checks :: "check_result list" where
  "over_one_checks =
     [mk_check ''reconciliation_settlement'' ''reconciliation'' False ''critical''
        [(''overall_reconciliation_rate'', - 1 / 2)]]"

definition zero_row_frame :: dataframe where
  "zero_row_frame = \<lparr>nrows = 0, cols = [(''amount'', [])]\<rparr>"

definition one_bad_currency :: dataframe where
  "one_bad_currency =
     \<lparr>nrows = 200, cols = [(''currency'', replicate 199 (Val ''USD'') @ [Val ''XXX''])]\<rparr>"







section \<open>Properties of the scoring agent\<close>

lemma score_loop_fold:
  "score_loop cbd p ds (scores, weights) =
     (fold (\<lambda>d. AList.update d (compute_dimension_score d (cbd d) p)) ds scores,
      fold (\<lambda>d. AList.update d (weight (compute_dimension_score d (cbd d) p))) ds weights)"
  by (induction ds arbitrary: scores weights) (simp_all add: Let_def)

lemma fold_update_keys:
  "fst ` set (fold (\<lambda>d. AList.update d (f d)) ds al) = set ds \<union> fst ` set al"
  by (induction ds arbitrary: al) (auto simp: dom_update)

lemma fold_update_distinct:
  "distinct (map fst al) \<Longrightarrow> distinct (map fst (fold (\<lambda>d. AList.update d (f d)) ds al))"
  by (induction ds arbitrary: al) (simp_all add: distinct_update)

lemma fold_update_map_of:
  "map_of (fold (\<lambda>d. AList.update d (f d)) ds al) k =
     (if k \<in> set ds then Some (f k) else map_of al k)"
  by (induction ds arbitrary: al) (auto simp: update_conv)

lemma compute_scores_fields:
  "dimension_scores (compute_scores crs p sel) =
     fold (\<lambda>d. AList.update d (dimension_score_of crs p d)) sel []"
  "dimension_weights (compute_scores crs p sel) =
     fold (\<lambda>d. AList.update d (weight (dimension_score_of crs p d))) sel []"
  "composite_dqs (compute_scores crs p sel) =
     compute_composite_score (dimension_scores (compute_scores crs p sel))
       (dimension_weights (compute_scores crs p sel))"
  by (simp_all add: compute_scores_def score_loop_fold dimension_score_of_def)

lemma scores_keys: "fst ` set (dimension_scores (compute_scores crs p sel)) = set sel"
  by (simp add: compute_scores_fields fold_update_keys)

lemma scores_distinct: "distinct (map fst (dimension_scores (compute_scores crs p sel)))"
  by (simp add: compute_scores_fields fold_update_distinct)

lemma scores_map_of:
  "map_of (dimension_scores (compute_scores crs p sel)) d =
     (if d \<in> set sel then Some (dimension_score_of crs p d) else None)"
  by (simp add: compute_scores_fields fold_update_map_of)

lemma weights_map_of:
  "map_of (dimension_weights (compute_scores crs p sel)) d =
     (if d \<in> set sel then Some (weight (dimension_score_of crs p d)) else None)"
  by (simp add: compute_scores_fields fold_update_map_of)

lemma sum_list_alist:
  assumes "distinct (map fst al)"
  shows "sum_list (map (\<lambda>(k, v). h k v) al) = (\<Sum>k\<in>fst ` set al. h k (the (map_of al k)))"
proof -
  have "map (\<lambda>(k, v). h k v) al = map ((\<lambda>k. h k (the (map_of al k))) \<circ> fst) al"
    using assms by (intro map_cong) (auto simp: map_of_is_SomeI)
  then have "sum_list (map (\<lambda>(k, v). h k v) al) =
             sum_list (map (\<lambda>k. h k (the (map_of al k))) (map fst al))"
    by (simp only: map_map)
  also have "\<dots> = (\<Sum>k\<in>set (map fst al). h k (the (map_of al k)))"
    using assms by (rule sum_list_distinct_conv_sum_set)
  finally show ?thesis by simp
qed

lemma composite_as_sum:
  "composite_dqs (compute_scores crs p sel) =
     (let tws = (\<Sum>d\<in>set sel. score (dimension_score_of crs p d) * weight (dimension_score_of crs p d));
          tw = (\<Sum>d\<in>set sel. weight (dimension_score_of crs p d))
      in round2 (if 0 < tw then tws / tw else 0))"
proof -
  let ?r = "compute_scores crs p sel"
  have a: "sum_list (map (\<lambda>(d, sd). score sd * dict_get (dimension_weights ?r) d 1) (dimension_scores ?r)) =
        (\<Sum>d\<in>set sel. score (dimension_score_of crs p d) * weight (dimension_score_of crs p d))"
    by (simp add: sum_list_alist [OF scores_distinct] scores_keys scores_map_of weights_map_of dict_get_def)
  have b: "sum_list (map (\<lambda>(d, sd). dict_get (dimension_weights ?r) d 1) (dimension_scores ?r)) =
        (\<Sum>d\<in>set sel. weight (dimension_score_of crs p d))"
    by (simp add: sum_list_alist [OF scores_distinct] scores_keys scores_map_of weights_map_of dict_get_def)
  show ?thesis
    unfolding compute_scores_fields(3) compute_composite_score_def a b by (simp add: Let_def)
qed

lemma base_weights_cases: "base_weights d = 2 \<or> base_weights d = 3 \<or> base_weights d = 5 / 2"
  by (simp add: base_weights_def)

lemma round2_weights:
  assumes "w = 2 \<or> w = 3 \<or> w = 5 / 2"
  shows "round2 w = w \<and> round2 (w * (12 / 10)) = w * (12 / 10)"
proof -
  have "round2 2 = 2 \<and> round2 (2 * (12 / 10)) = 2 * (12 / 10)"
       "round2 3 = 3 \<and> round2 (3 * (12 / 10)) = 3 * (12 / 10)"
       "round2 (5 / 2) = 5 / 2 \<and> round2 (5 / 2 * (12 / 10)) = 5 / 2 * (12 / 10)"
    by code_simp+
  with assms show ?thesis by blast
qed

lemma get_dimension_weight_eq:
  "get_dimension_weight d p =
     base_weights d * (if 10 < critical_count (columns p) then 12 / 10 else 1)"
  using round2_weights [OF base_weights_cases [of d]]
  by (simp add: get_dimension_weight_def Let_def)

lemma get_dimension_weight_pos: "0 < get_dimension_weight d p"
proof -
  have "0 < base_weights d" using base_weights_cases [of d] by auto
  then show ?thesis by (simp add: get_dimension_weight_eq)
qed

lemma dimension_score_weight_pos: "0 < weight (dimension_score_of crs p d)"
  by (simp add: dimension_score_of_def compute_dimension_score_def get_dimension_weight_pos)

lemma py_round_lower: "of_int a \<le> x \<Longrightarrow> a \<le> py_round x"
proof -
  assume "of_int a \<le> x"
  then have "a \<le> \<lfloor>x\<rfloor>" by (simp add: le_floor_iff)
  then show ?thesis by (simp add: py_round_def Let_def)
qed

lemma py_round_upper: "x \<le> of_int b \<Longrightarrow> py_round x \<le> b"
proof -
  assume h: "x \<le> of_int b"
  have fl: "\<lfloor>x\<rfloor> \<le> b" using h by (simp add: floor_le_iff)
  show ?thesis
  proof (cases "\<lfloor>x\<rfloor> = b")
    case True
    then have "x - of_int \<lfloor>x\<rfloor> \<le> 0" using h by simp
    then show ?thesis using True by (simp add: py_round_def Let_def)
  next
    case False
    then have "\<lfloor>x\<rfloor> + 1 \<le> b" using fl by simp
    then show ?thesis using fl by (simp add: py_round_def Let_def)
  qed
qed

lemma round2_lower: "0 \<le> x \<Longrightarrow> 0 \<le> round2 x"
  using py_round_lower [of 0 "x * 100"] by (simp add: round2_def)

lemma round2_upper: "x \<le> 100 \<Longrightarrow> round2 x \<le> 100"
proof -
  assume "x \<le> 100"
  then have "py_round (x * 100) \<le> 10000" by (intro py_round_upper) simp
  then have "(of_int (py_round (x * 100)) :: rat) \<le> 10000" by linarith
  then show ?thesis by (simp add: round2_def)
qed

lemma severity_weights_pos: "0 < severity_weights s"
  by (simp add: severity_weights_def)

lemma weighted_error_rate_nonneg:
  assumes "\<forall>c\<in>set checks. 0 \<le> extract_error_rate c"
  shows "0 \<le> weighted_error_rate checks"
proof -
  have "0 \<le> sum_list (map (\<lambda>c. extract_error_rate c * severity_weights (severity c)) checks)"
    using assms by (intro sum_list_nonneg) (auto simp: less_imp_le severity_weights_pos)
  then show ?thesis by (simp add: weighted_error_rate_def Let_def)
qed

lemma dimension_score_lower: "0 \<le> score (compute_dimension_score d checks p)"
  by (simp add: compute_dimension_score_def round2_lower)

lemma dimension_score_upper:
  assumes "\<forall>c\<in>set checks. 0 \<le> extract_error_rate c"
  shows "score (compute_dimension_score d checks p) \<le> 100"
  using weighted_error_rate_nonneg [OF assms]
  by (simp add: compute_dimension_score_def round2_upper)

lemma composite_lower: "0 \<le> composite_dqs (compute_scores crs p sel)"
proof -
  have "0 \<le> (\<Sum>d\<in>set sel. score (dimension_score_of crs p d) * weight (dimension_score_of crs p d))"
    by (intro sum_nonneg mult_nonneg_nonneg)
       (simp_all add: dimension_score_of_def dimension_score_lower
          less_imp_le [OF dimension_score_weight_pos [unfolded dimension_score_of_def]])
  then show ?thesis by (simp add: composite_as_sum Let_def round2_lower)
qed

lemma composite_upper:
  assumes "\<forall>c\<in>set crs. 0 \<le> extract_error_rate c"
  shows "composite_dqs (compute_scores crs p sel) \<le> 100"
proof -
  let ?s = "\<lambda>d. score (dimension_score_of crs p d)"
  let ?w = "\<lambda>d. weight (dimension_score_of crs p d)"
  have "?s d \<le> 100" for d
    unfolding dimension_score_of_def
    using assms by (intro dimension_score_upper) (simp add: checks_by_dimension_def)
  then have "?s d * ?w d \<le> 100 * ?w d" for d
    using dimension_score_weight_pos [of crs p d] by simp
  then have "(\<Sum>d\<in>set sel. ?s d * ?w d) \<le> (\<Sum>d\<in>set sel. 100 * ?w d)"
    by (intro sum_mono)
  then have le: "(\<Sum>d\<in>set sel. ?s d * ?w d) \<le> 100 * (\<Sum>d\<in>set sel. ?w d)"
    by (simp add: sum_distrib_left)
  have "(if 0 < (\<Sum>d\<in>set sel. ?w d) then (\<Sum>d\<in>set sel. ?s d * ?w d) / (\<Sum>d\<in>set sel. ?w d) else 0) \<le> 100"
    using le by (simp add: pos_divide_le_eq)
  then show ?thesis by (simp add: composite_as_sum Let_def round2_upper)
qed

text \<open>
  Claim C5, amended. Every dimension score and the composite score are at least 0, for all
  check results (the dimension score is clamped by \<open>max(0, ...)\<close>, also when an error rate
  exceeds 1). They are at most 100 when no extracted error rate is negative; the code has no
  upper clamp.
\<close>

theorem scores_in_range:
  "(\<forall>(d, s)\<in>set (dimension_scores (compute_scores crs p sel)). 0 \<le> score s) \<and>
   0 \<le> composite_dqs (compute_scores crs p sel) \<and>
   ((\<forall>c\<in>set crs. 0 \<le> extract_error_rate c) \<longrightarrow>
      (\<forall>(d, s)\<in>set (dimension_scores (compute_scores crs p sel)). score s \<le> 100) \<and>
      composite_dqs (compute_scores crs p sel) \<le> 100)"
proof -
  have entry: "s = dimension_score_of crs p d"
    if "(d, s) \<in> set (dimension_scores (compute_scores crs p sel))" for d s
  proof -
    have "map_of (dimension_scores (compute_scores crs p sel)) d = Some s"
      using that scores_distinct by (simp add: map_of_is_SomeI)
    then show ?thesis by (simp add: scores_map_of split: if_splits)
  qed
  have lo: "0 \<le> score s" if "(d, s) \<in> set (dimension_scores (compute_scores crs p sel))" for d s
    using entry [OF that] by (simp add: dimension_score_of_def dimension_score_lower)
  have hi: "score s \<le> 100"
    if "(d, s) \<in> set (dimension_scores (compute_scores crs p sel))"
      and "\<forall>c\<in>set crs. 0 \<le> extract_error_rate c" for d s
    using entry [OF that(1)] that(2)
    by (simp add: dimension_score_of_def dimension_score_upper checks_by_dimension_def)
  show ?thesis using lo hi composite_lower composite_upper by blast
qed

theorem scores_in_range_witness:
  "extract_error_rate (hd over_one_checks) = 3 / 2 \<and>
   map_of (dimension_scores (compute_scores over_one_checks (plain_profile []) [''reconciliation'']))
     ''reconciliation'' = Some \<lparr>score = 0, weight = 3\<rparr> \<and>
   0 \<le> composite_dqs (compute_scores over_one_checks (plain_profile []) [''reconciliation'']) \<and>
   composite_dqs (compute_scores over_one_checks (plain_profile []) [''reconciliation'']) \<le> 100"
proof -
  have h: "\<forall>c\<in>set over_one_checks. 0 \<le> extract_error_rate c" by code_simp
  have e: "extract_error_rate (hd over_one_checks) = 3 / 2" by code_simp
  have s: "map_of (dimension_scores (compute_scores over_one_checks (plain_profile []) [''reconciliation'']))
     ''reconciliation'' = Some \<lparr>score = 0, weight = 3\<rparr>" by code_simp
  from h e s scores_in_range [of over_one_checks "plain_profile []" "[''reconciliation'']"]
  show ?thesis by blast
qed

text \<open>
  Claim C5 as stated fails: a check result whose \<open>overall_null_rate\<close> is \<open>-1\<close> gives its
  dimension the score 200, and the composite is 200.
\<close>

theorem scores_in_range_counterexample:
  "map_of (dimension_scores (compute_scores negative_rate_checks (plain_profile []) [''completeness'']))
     ''completeness'' = Some \<lparr>score = 200, weight = 2\<rparr> \<and>
   composite_dqs (compute_scores negative_rate_checks (plain_profile []) [''completeness'']) = 200"
  by code_simp

text \<open>
  Claim C9. On every failing check the frequency of the remediation agent equals the error
  rate of the scoring agent.
\<close>

theorem frequency_is_error_rate:
  "\<not> passed c \<Longrightarrow> extract_frequency c = extract_error_rate c"
  by (simp add: extract_frequency_def extract_error_rate_def)

theorem frequency_is_error_rate_witness:
  "\<not> passed (mk_check ''integrity_merchant_reference'' ''integrity'' False ''high'' []) \<and>
   extract_frequency (mk_check ''integrity_merchant_reference'' ''integrity'' False ''high'' []) =
   extract_error_rate (mk_check ''integrity_merchant_reference'' ''integrity'' False ''high'' []) \<and>
   extract_error_rate (mk_check ''integrity_merchant_reference'' ''integrity'' False ''high'' []) = 5 / 100"
proof -
  have h: "\<not> passed (mk_check ''integrity_merchant_reference'' ''integrity'' False ''high'' [])"
    by (simp add: mk_check_def)
  have v: "extract_error_rate (mk_check ''integrity_merchant_reference'' ''integrity'' False ''high'' []) = 5 / 100"
    by code_simp
  from h v frequency_is_error_rate [OF h] show ?thesis by simp
qed




lemma round2_zero: "round2 0 = 0"
  by code_simp

text \<open>
  Claim C4, amended. The score dictionary has exactly the selected dimensions as keys, each
  mapped to the score of its own checks, and the composite is the weighted mean of these
  entries rounded to two decimals (0 when nothing is selected).
\<close>

theorem composite_over_selected:
  "fst ` set (dimension_scores (compute_scores crs p sel)) = set sel \<and>
   distinct (map fst (dimension_scores (compute_scores crs p sel))) \<and>
   (\<forall>d\<in>set sel. map_of (dimension_scores (compute_scores crs p sel)) d =
       Some (dimension_score_of crs p d)) \<and>
   composite_dqs (compute_scores crs p sel) =
     (if sel = [] then 0
      else round2 ((\<Sum>d\<in>set sel. score (dimension_score_of crs p d) * weight (dimension_score_of crs p d))
                   / (\<Sum>d\<in>set sel. weight (dimension_score_of crs p d))))"
proof -
  have "0 < (\<Sum>d\<in>set sel. weight (dimension_score_of crs p d))" if "sel \<noteq> []"
    using that by (intro sum_pos) (simp_all add: dimension_score_weight_pos)
  then have "composite_dqs (compute_scores crs p sel) =
     (if sel = [] then 0
      else round2 ((\<Sum>d\<in>set sel. score (dimension_score_of crs p d) * weight (dimension_score_of crs p d))
                   / (\<Sum>d\<in>set sel. weight (dimension_score_of crs p d))))"
    by (simp add: composite_as_sum Let_def round2_zero)
  then show ?thesis by (simp add: scores_keys scores_distinct scores_map_of)
qed

theorem composite_over_selected_witness:
  "map_of (dimension_scores (compute_scores rounding_checks (plain_profile []) [''completeness'', ''validity'']))
     ''validity'' = Some (dimension_score_of rounding_checks (plain_profile []) ''validity'') \<and>
   map_of (dimension_scores (compute_scores rounding_checks (plain_profile []) [''completeness'', ''validity'']))
     ''uniqueness'' = None \<and>
   composite_dqs (compute_scores rounding_checks (plain_profile []) [''completeness'', ''validity'']) =
     round2 ((\<Sum>d\<in>set [''completeness'', ''validity''].
                score (dimension_score_of rounding_checks (plain_profile []) d) *
                weight (dimension_score_of rounding_checks (plain_profile []) d))
             / (\<Sum>d\<in>set [''completeness'', ''validity''].
                weight (dimension_score_of rounding_checks (plain_profile []) d)))"
proof -
  have n: "map_of (dimension_scores (compute_scores rounding_checks (plain_profile []) [''completeness'', ''validity'']))
     ''uniqueness'' = None" by code_simp
  from n composite_over_selected [of rounding_checks "plain_profile []" "[''completeness'', ''validity'']"]
  show ?thesis by simp
qed

text \<open>
  Claim C4 as stated fails where the weighted mean has more than two decimals: the scores
  100 and 0 with the weights 2 and 2.5 give the composite 44.44, not 400/9.
\<close>

theorem composite_over_selected_counterexample:
  "composite_dqs (compute_scores rounding_checks (plain_profile []) [''completeness'', ''validity''])
     = 4444 / 100 \<and>
   (score (dimension_score_of rounding_checks (plain_profile []) ''completeness'') *
      weight (dimension_score_of rounding_checks (plain_profile []) ''completeness'') +
    score (dimension_score_of rounding_checks (plain_profile []) ''validity'') *
      weight (dimension_score_of rounding_checks (plain_profile []) ''validity''))
   / (weight (dimension_score_of rounding_checks (plain_profile []) ''completeness'') +
      weight (dimension_score_of rounding_checks (plain_profile []) ''validity'')) = 400 / 9 \<and>
   (4444 / 100 :: rat) \<noteq> 400 / 9"
  by code_simp

section \<open>Properties of the selector and the remediation agent\<close>

lemma validity_targets_iff:
  "has_validity_targets p =
     (enum_columns p \<noteq> [] \<or>
      list_ex (\<lambda>col. contains ''currency'' (lower col) \<or> contains ''country'' (lower col) \<or>
                     contains ''mcc'' (lower col) \<or> contains ''amount'' (lower col)) (columns p))"
  unfolding has_validity_targets_def any_column_def list_ex_iff by blast

text \<open>
  Claim C8. The selector returns exactly the dimensions whose predicate of the
  specification's table holds, in the fixed order, completeness first.
\<close>

theorem select_dimensions_table:
  "select_dimensions p has_references = filter (included_iff p has_references) all_dimensions \<and>
   hd (select_dimensions p has_references) = ''completeness''"
proof -
  have "select_dimensions p has_references =
        filter (included_iff p has_references) all_dimensions"
    unfolding select_dimensions_def all_dimensions_def Let_def
    by (simp add: included_iff_def validity_targets_iff has_consistency_targets_def
          any_column_def ref_available_def Suc_le_eq)
  then show ?thesis
    by (simp add: all_dimensions_def included_iff_def)
qed

lemma sorted_desc:
  "sorted_wrt (\<lambda>a b. priority_score b \<le> priority_score a) (sort_key (\<lambda>x. - priority_score x) xs)"
proof -
  have "sorted (map (\<lambda>x. - priority_score x) (sort_key (\<lambda>x. - priority_score x) xs))"
    by (rule sorted_sort_key)
  then show ?thesis by (simp add: sorted_map)
qed

text \<open>
  Claim C6. The headline list is the first 10 of the ranked issues; the ranked issues are
  the issues of the failing checks, in non-increasing order of priority score, and issues of
  equal priority score keep the order of their check results.
\<close>

theorem top_issues_ranked:
  "top_issues crs sr = take 10 (rank_issues crs sr) \<and>
   length (top_issues crs sr) = min 10 (length (filter (\<lambda>c. \<not> passed c) crs)) \<and>
   sorted_wrt (\<lambda>a b. priority_score b \<le> priority_score a) (rank_issues crs sr) \<and>
   mset (rank_issues crs sr) = mset (failing_issues crs sr) \<and>
   map issue_check_id (failing_issues crs sr) = map check_id (filter (\<lambda>c. \<not> passed c) crs) \<and>
   (\<forall>k. filter (\<lambda>x. priority_score x = k) (rank_issues crs sr) =
        filter (\<lambda>x. priority_score x = k) (failing_issues crs sr))"
proof -
  have stable: "filter (\<lambda>x. priority_score x = k) (rank_issues crs sr) =
        filter (\<lambda>x. priority_score x = k) (failing_issues crs sr)" for k
    using sort_key_stable [of "\<lambda>x. - priority_score x" "- k" "failing_issues crs sr"]
    by (simp add: rank_issues_def)
  have ids: "map issue_check_id (failing_issues crs sr) =
        map check_id (filter (\<lambda>c. \<not> passed c) crs)"
    by (simp add: failing_issues_def make_issue_def Let_def)
  have len: "length (top_issues crs sr) = min 10 (length (filter (\<lambda>c. \<not> passed c) crs))"
    by (simp add: top_issues_def rank_issues_def failing_issues_def min.commute)
  show ?thesis
    using stable ids len by (simp add: top_issues_def rank_issues_def sorted_desc)
qed

section \<open>Properties of the checks\<close>

text \<open>
  Claim C3. The claim asks that no check raises on a dataset without rows. The code does
  not meet it: on a frame with a column and no row, no column qualifies as a key, and the
  fallback of \<open>infer_key_columns\<close> divides by the row count without the guard that the
  loop above it has.
\<close>

theorem zero_rows_division: "run_uniqueness_checks zero_row_frame = Inl ZeroDivisionError"
  by code_simp

text \<open>
  Claim C7, amended. The currency check has three severities: high when the overall invalid
  rate exceeds 0.01, medium when it is positive and at most 0.01, low when it is 0 (or when
  there is no currency column). The country and MCC checks have medium above 0.01 and low
  otherwise.
\<close>

theorem validity_severity_tiers:
  "severity (check_currency_validity df) =
     (case map_of (metrics (check_currency_validity df)) ''overall_invalid_rate'' of
        None \<Rightarrow> ''low''
      | Some r \<Rightarrow> if 1 / 100 < r then ''high'' else if 0 < r then ''medium'' else ''low'') \<and>
   severity (check_country_validity df) =
     (case map_of (metrics (check_country_validity df)) ''overall_invalid_rate'' of
        None \<Rightarrow> ''low''
      | Some r \<Rightarrow> if 1 / 100 < r then ''medium'' else ''low'') \<and>
   severity (check_mcc_validity df mcc_reference) =
     (case map_of (metrics (check_mcc_validity df mcc_reference)) ''overall_invalid_rate'' of
        None \<Rightarrow> ''low''
      | Some r \<Rightarrow> if 1 / 100 < r then ''medium'' else ''low'')"
  by (simp add: check_currency_validity_def check_country_validity_def check_mcc_validity_def
        inapplicable_def Let_def)

text \<open>
  Claim C7 as stated fails for the currency check: one invalid code in 200 rows is a rate of
  0.005, which is not above 0.01, and the severity is medium, not low.
\<close>

theorem validity_severity_counterexample:
  "map_of (metrics (check_currency_validity one_bad_currency)) ''overall_invalid_rate'' = Some (1 / 200) \<and>
   \<not> (1 / 100 < (1 / 200 :: rat)) \<and>
   severity (check_currency_validity one_bad_currency) = ''medium''"
  by code_simp







subsection \<open>Checks that cannot run\<close>



















end
